theory Spec2Isabelle
  imports Complex_Main "HOL-Library.Char_ord" "HOL-Library.List_Lexorder"
begin

section \<open>JavaScript values\<close>

text \<open>
  The engine of \<^verbatim>\<open>src/Leaderboard.ts\<close> computes with JavaScript numbers and hands
  JavaScript values to its callbacks. A number is a finite value, \<^verbatim>\<open>NaN\<close> or one of the
  two infinities. A finite value is given by the real number it stands for. The sign of
  zero is left out, a zero divisor counting as \<^verbatim>\<open>+0\<close>. The rounding of IEEE doubles is
  not modelled: the one division of the engine is computed where doubles give the exact
  answer, and is \<open>Unmodelled\<close> elsewhere.
\<close>

datatype number = Fin real | NaN | PosInf | NegInf

text \<open>
  The values that reach a callback. \<open>ScoreString s\<close> is the string in which the store
  prints the score \<open>s\<close> (the client library hands the reply of \<^verbatim>\<open>ZSCORE\<close> over as a
  string). \<open>RankWithScore r s\<close> is the object \<^verbatim>\<open>{rank: r, score: s}\<close>. \<open>Unmodelled\<close> is
  the outcome of string arithmetic (\<^verbatim>\<open>+\<close> on a string concatenates), which arises only when
  a store answers a rank query with a string, and of a division whose operands are not
  both integers below \<open>2 ^ 53\<close> in magnitude, where the rounding of doubles decides.
\<close>

datatype jsval =
    Undefined
  | Null
  | Number number
  | ScoreString real
  | RankWithScore jsval jsval
  | Unmodelled

text \<open>\<^verbatim>\<open>!x\<close> on an optional number: \<^verbatim>\<open>undefined\<close>, \<^verbatim>\<open>0\<close> and \<^verbatim>\<open>NaN\<close> are falsy.\<close>

fun falsy :: "number option \<Rightarrow> bool" where
  "falsy None = True"
| "falsy (Some (Fin r)) = (r = 0)"
| "falsy (Some NaN) = True"
| "falsy (Some PosInf) = False"
| "falsy (Some NegInf) = False"

text \<open>\<^verbatim>\<open>x < 0\<close> and \<^verbatim>\<open>x > 0\<close> on numbers; every comparison with \<^verbatim>\<open>NaN\<close> is false.\<close>

fun negative :: "number \<Rightarrow> bool" where
  "negative (Fin r) = (r < 0)"
| "negative NaN = False"
| "negative PosInf = False"
| "negative NegInf = True"

fun positive :: "number \<Rightarrow> bool" where
  "positive (Fin r) = (0 < r)"
| "positive NaN = False"
| "positive PosInf = True"
| "positive NegInf = False"

text \<open>\<^verbatim>\<open>a !== b\<close> on numbers: \<^verbatim>\<open>NaN\<close> differs from everything, itself included.\<close>

definition strict_neq :: "number \<Rightarrow> number \<Rightarrow> bool" where
  "strict_neq a b = (a \<noteq> b \<or> a = NaN)"

text \<open>\<^verbatim>\<open>x == null\<close>: true of \<^verbatim>\<open>null\<close> and of \<^verbatim>\<open>undefined\<close> only.\<close>

definition is_nullish :: "jsval \<Rightarrow> bool" where
  "is_nullish v = (v = Null \<or> v = Undefined)"

text \<open>
  \<^verbatim>\<open>Math.ceil(a / b)\<close> on numbers. A division by zero, by an infinity or of an infinity and
  any operation on \<^verbatim>\<open>NaN\<close> are as IEEE has them. For finite operands and a divisor that is
  not zero, the quotient of two doubles is rounded to a double before \<^verbatim>\<open>Math.ceil\<close> sees
  it. When both operands are integers of magnitude below \<open>2 ^ 53\<close> the rounded quotient has
  the ceiling of the exact one (a quotient that is no integer is at least \<open>1 / b\<close> away from
  the integer below it, more than rounding can move it), so the result is the exact
  ceiling. For other operands the result depends on the rounding (\<^verbatim>\<open>Math.ceil(3 / 0.3)\<close> is
  10, the exact ceiling of the quotient of the two doubles is 11) and is \<open>Unmodelled\<close>.
\<close>

definition safe_integer :: "real \<Rightarrow> bool" where
  "safe_integer a = (of_int \<lfloor>a\<rfloor> = a \<and> \<bar>a\<bar> < 9007199254740992)"

fun ceil_quotient :: "number \<Rightarrow> number \<Rightarrow> jsval" where
  "ceil_quotient NaN b = Number NaN"
| "ceil_quotient (Fin a) NaN = Number NaN"
| "ceil_quotient PosInf NaN = Number NaN"
| "ceil_quotient NegInf NaN = Number NaN"
| "ceil_quotient (Fin a) (Fin b) =
     (if b = 0 then Number (if a = 0 then NaN else if 0 < a then PosInf else NegInf)
      else if safe_integer a \<and> safe_integer b then Number (Fin (of_int \<lceil>a / b\<rceil>))
      else Unmodelled)"
| "ceil_quotient (Fin a) PosInf = Number (Fin 0)"
| "ceil_quotient (Fin a) NegInf = Number (Fin 0)"
| "ceil_quotient PosInf (Fin b) = Number (if 0 \<le> b then PosInf else NegInf)"
| "ceil_quotient NegInf (Fin b) = Number (if 0 \<le> b then NegInf else PosInf)"
| "ceil_quotient PosInf PosInf = Number NaN"
| "ceil_quotient PosInf NegInf = Number NaN"
| "ceil_quotient NegInf PosInf = Number NaN"
| "ceil_quotient NegInf NegInf = Number NaN"

text \<open>
  The conversion to a number that \<^verbatim>\<open>/\<close> applies to its left operand: \<^verbatim>\<open>null\<close> is 0,
  \<^verbatim>\<open>undefined\<close> and an object are \<^verbatim>\<open>NaN\<close>, a score's string is the score.
\<close>

fun to_number :: "jsval \<Rightarrow> number option" where
  "to_number Undefined = Some NaN"
| "to_number Null = Some (Fin 0)"
| "to_number (Number n) = Some n"
| "to_number (ScoreString s) = Some (Fin s)"
| "to_number (RankWithScore r s) = Some NaN"
| "to_number Unmodelled = None"

text \<open>\<^verbatim>\<open>Math.ceil(v / pageSize)\<close>.\<close>

definition ceil_div :: "jsval \<Rightarrow> number \<Rightarrow> jsval" where
  "ceil_div v psize =
     (case to_number v of
        None \<Rightarrow> Unmodelled
      | Some n \<Rightarrow> ceil_quotient n psize)"

text \<open>\<^verbatim>\<open>v + 1\<close>: addition on numbers, \<^verbatim>\<open>null\<close> counting as 0; concatenation on a string.\<close>

fun plus_one :: "jsval \<Rightarrow> jsval" where
  "plus_one Undefined = Number NaN"
| "plus_one Null = Number (Fin 1)"
| "plus_one (Number (Fin a)) = Number (Fin (a + 1))"
| "plus_one (Number NaN) = Number NaN"
| "plus_one (Number PosInf) = Number PosInf"
| "plus_one (Number NegInf) = Number NegInf"
| "plus_one (ScoreString s) = Unmodelled"
| "plus_one (RankWithScore r s) = Unmodelled"
| "plus_one Unmodelled = Unmodelled"

text \<open>
  \<^verbatim>\<open>parseFloat(v)\<close>: the argument is turned into a string and its numeric prefix is read:
  the string of a score gives the score back, \<^verbatim>\<open>null\<close> and \<^verbatim>\<open>undefined\<close> (read as the words
  "null" and "undefined") and an object give \<^verbatim>\<open>NaN\<close>.
\<close>

fun parseFloat :: "jsval \<Rightarrow> jsval" where
  "parseFloat Undefined = Number NaN"
| "parseFloat Null = Number NaN"
| "parseFloat (Number n) = Number n"
| "parseFloat (ScoreString s) = Number (Fin s)"
| "parseFloat (RankWithScore r s) = Number NaN"
| "parseFloat Unmodelled = Unmodelled"

text \<open>\<^verbatim>\<open>replies[i]\<close> on an array: \<^verbatim>\<open>undefined\<close> beyond its end.\<close>

definition element :: "jsval list \<Rightarrow> nat \<Rightarrow> jsval" where
  "element replies i = (if i < length replies then replies ! i else Undefined)"

section \<open>The Redis client, as the engine sees it\<close>

text \<open>
  The commands the engine sends. A client answers a single command with the two arguments
  of the callback, an error (\<open>None\<close> for \<^verbatim>\<open>null\<close>) and a reply; it answers a transaction
  (\<^verbatim>\<open>multi\<close> ... \<^verbatim>\<open>exec\<close>) with an error and the array of the replies, \<open>None\<close> standing
  for no array. A client is any pair of such functions over a state of its own, so that a
  statement about every client covers every store and every failure.
\<close>

datatype command =
    DEL string
  | ZADD string real string
  | ZREM string string
  | ZCARD string
  | ZCOUNT string real real
  | ZRANK string string
  | ZREVRANK string string
  | ZSCORE string string

datatype store_error = StoreError string

record 's RedisClient =
  send :: "command \<Rightarrow> 's \<Rightarrow> (store_error option \<times> jsval) \<times> 's"
  exec :: "command list \<Rightarrow> 's \<Rightarrow> (store_error option \<times> jsval list option) \<times> 's"

text \<open>
  What a call of the engine ends in: its callback invoked with an error and a result, an
  exception thrown, or nothing at all.
\<close>

datatype exception = TypeError

datatype outcome =
    Callback "store_error option" jsval
  | Throw exception
  | NoCallback

definition invoke ::
  "'s RedisClient \<Rightarrow> command \<Rightarrow> (store_error option \<times> jsval \<Rightarrow> outcome) \<Rightarrow> 's \<Rightarrow> outcome \<times> 's" where
  "invoke client cmd callback s = (case send client cmd s of (args, s') \<Rightarrow> (callback args, s'))"

definition transact ::
  "'s RedisClient \<Rightarrow> command list \<Rightarrow> (store_error option \<times> jsval list option \<Rightarrow> outcome) \<Rightarrow>
   's \<Rightarrow> outcome \<times> 's" where
  "transact client cmds callback s =
     (case exec client cmds s of (args, s') \<Rightarrow> (callback args, s'))"

section \<open>The leaderboard engine\<close>

text \<open>
  The class \<^verbatim>\<open>Leaderboard\<close>. A method sends its commands through the client and returns;
  the client invokes the callback when the store has answered. The model takes the two
  steps as one: a method maps the state of the client to what became of the callback and
  to the state after it. \<^verbatim>\<open>SortOrders\<close> is a numeric enum and \<^verbatim>\<open>sortOrder\<close> a field of
  type \<^verbatim>\<open>number\<close>, so the two orders are the numbers 0 and 1.
\<close>

abbreviation Ascending :: number where "Ascending \<equiv> Fin 0"
abbreviation Descending :: number where "Descending \<equiv> Fin 1"

record ILeaderboardOptions =
  opt_name :: "string option"
  opt_pageSize :: "number option"
  opt_sortOrder :: "number option"

record IRedisOptions =
  host :: "string option"
  port :: "number option"
  db :: "string option"

record Leaderboard =
  leaderboardName :: string
  pageSize :: number
  sortOrder :: number
  redisHost :: string
  redisPort :: number

abbreviation DEFAULT_PAGE_SIZE :: number where "DEFAULT_PAGE_SIZE \<equiv> Fin 50"
abbreviation DEFAULT_REDIS_HOST :: string where "DEFAULT_REDIS_HOST \<equiv> ''localhost''"
abbreviation DEFAULT_REDIS_PORT :: number where "DEFAULT_REDIS_PORT \<equiv> Fin 6379"
abbreviation DEFAULT_SORT_ORDER :: number where "DEFAULT_SORT_ORDER \<equiv> Ascending"

text \<open>
  The constructor (lines 52 to 74). Both option objects are optional parameters, and the
  body reads a field of each, of \<^verbatim>\<open>redisOptions\<close> first: an omitted object is a
  \<^verbatim>\<open>TypeError\<close>. A field of an options object may be missing (\<open>None\<close>). The record
  holds the options after the defaults are filled in; the connection that
  \<^verbatim>\<open>Redis.createClient\<close> opens is the client the methods below take as a parameter.
\<close>

definition constructor ::
  "string \<Rightarrow> ILeaderboardOptions option \<Rightarrow> IRedisOptions option \<Rightarrow> exception + Leaderboard" where
  "constructor name leaderboardOptions redisOptions =
     (case redisOptions of
        None \<Rightarrow> Inl TypeError
      | Some ro \<Rightarrow>
          (case leaderboardOptions of
             None \<Rightarrow> Inl TypeError
           | Some lo \<Rightarrow>
               Inr \<lparr> leaderboardName = name,
                     pageSize =
                       (case opt_pageSize lo of
                          None \<Rightarrow> DEFAULT_PAGE_SIZE
                        | Some p \<Rightarrow>
                            if falsy (Some p) \<or> negative p then DEFAULT_PAGE_SIZE else p),
                     sortOrder =
                       (case opt_sortOrder lo of
                          None \<Rightarrow> DEFAULT_SORT_ORDER
                        | Some d \<Rightarrow> if falsy (Some d) then DEFAULT_SORT_ORDER else d),
                     redisHost =
                       (case host ro of
                          None \<Rightarrow> DEFAULT_REDIS_HOST
                        | Some h \<Rightarrow> if h = [] then DEFAULT_REDIS_HOST else h),
                     redisPort =
                       (case port ro of
                          None \<Rightarrow> DEFAULT_REDIS_PORT
                        | Some p \<Rightarrow> if falsy (Some p) then DEFAULT_REDIS_PORT else p) \<rparr>))"

text \<open>The \<^verbatim>\<open>pageSize\<close> setter (lines 90 to 94): an assignment, unless the value is the old one.\<close>

definition set_pageSize :: "Leaderboard \<Rightarrow> number \<Rightarrow> Leaderboard" where
  "set_pageSize lb v = (if strict_neq v (pageSize lb) then lb\<lparr>pageSize := v\<rparr> else lb)"

text \<open>
  The methods that hand the caller's callback to one command of the client (lines 102 to
  147). A score is a finite number: \<^verbatim>\<open>NaN\<close> and the infinities as scores are left out.
\<close>

definition deleteLeaderboard :: "Leaderboard \<Rightarrow> 's RedisClient \<Rightarrow> 's \<Rightarrow> outcome \<times> 's" where
  "deleteLeaderboard lb client =
     invoke client (DEL (leaderboardName lb)) (\<lambda>(error, result). Callback error result)"

definition rankMember ::
  "Leaderboard \<Rightarrow> 's RedisClient \<Rightarrow> string \<Rightarrow> real \<Rightarrow> 's \<Rightarrow> outcome \<times> 's" where
  "rankMember lb client member score =
     invoke client (ZADD (leaderboardName lb) score member)
       (\<lambda>(error, result). Callback error result)"

definition removeMemember :: "Leaderboard \<Rightarrow> 's RedisClient \<Rightarrow> string \<Rightarrow> 's \<Rightarrow> outcome \<times> 's" where
  "removeMemember lb client member =
     invoke client (ZREM (leaderboardName lb) member) (\<lambda>(error, result). Callback error result)"

definition memberCount :: "Leaderboard \<Rightarrow> 's RedisClient \<Rightarrow> 's \<Rightarrow> outcome \<times> 's" where
  "memberCount lb client =
     invoke client (ZCARD (leaderboardName lb)) (\<lambda>(error, result). Callback error result)"

definition memberCountInRange ::
  "Leaderboard \<Rightarrow> 's RedisClient \<Rightarrow> real \<Rightarrow> real \<Rightarrow> 's \<Rightarrow> outcome \<times> 's" where
  "memberCountInRange lb client minScore maxScore =
     invoke client (ZCOUNT (leaderboardName lb) minScore maxScore)
       (\<lambda>(error, result). Callback error result)"

text \<open>
  \<^verbatim>\<open>pageCount\<close> (lines 166 to 179) and \<^verbatim>\<open>getPageFor\<close> are overloaded on an optional
  page size, told from the callback by \<^verbatim>\<open>typeof\<close>; \<open>None\<close> is the overload without it,
  which reads the configured page size. The error of the store is passed on.
\<close>

definition pageCount ::
  "Leaderboard \<Rightarrow> 's RedisClient \<Rightarrow> number option \<Rightarrow> 's \<Rightarrow> outcome \<times> 's" where
  "pageCount lb client param1 =
     (let psize = (case param1 of None \<Rightarrow> pageSize lb | Some p \<Rightarrow> p)
      in invoke client (ZCARD (leaderboardName lb))
           (\<lambda>(error, result). Callback error (ceil_div result psize)))"

text \<open>
  \<^verbatim>\<open>getRankFor\<close> (lines 181 to 195): the response adds one to a reply that is not
  \<^verbatim>\<open>null\<close> and passes the error on, and calls back with \<^verbatim>\<open>(null, null)\<close> otherwise; the
  command depends on the sort order.
\<close>

definition getRankFor_response :: "store_error option \<times> jsval \<Rightarrow> outcome" where
  "getRankFor_response =
     (\<lambda>(error, result).
        if \<not> is_nullish result then Callback error (plus_one result)
        else Callback None Null)"

definition getRankFor :: "Leaderboard \<Rightarrow> 's RedisClient \<Rightarrow> string \<Rightarrow> 's \<Rightarrow> outcome \<times> 's" where
  "getRankFor lb client member =
     (if sortOrder lb = Descending
      then invoke client (ZRANK (leaderboardName lb) member) getRankFor_response
      else invoke client (ZREVRANK (leaderboardName lb) member) getRankFor_response)"

text \<open>\<^verbatim>\<open>getScoreFor\<close> (lines 197 to 205): the response tests the error only.\<close>

definition getScoreFor :: "Leaderboard \<Rightarrow> 's RedisClient \<Rightarrow> string \<Rightarrow> 's \<Rightarrow> outcome \<times> 's" where
  "getScoreFor lb client member =
     invoke client (ZSCORE (leaderboardName lb) member)
       (\<lambda>(error, result).
          if error = None then Callback error (parseFloat result)
          else Callback None Null)"

text \<open>
  \<^verbatim>\<open>getRankWithScoreFor\<close> (lines 213 to 234): the response tests the error only, and
  reads \<^verbatim>\<open>replies[1]\<close> and \<^verbatim>\<open>replies[0]\<close>, which throws when there is no array. The
  \<^verbatim>\<open>console.log\<close> of the response is left out.
\<close>

definition getRankWithScoreFor_response :: "store_error option \<times> jsval list option \<Rightarrow> outcome" where
  "getRankWithScoreFor_response =
     (\<lambda>(error, replies).
        if error \<noteq> None then Callback None Null
        else (case replies of
                None \<Rightarrow> Throw TypeError
              | Some rs \<Rightarrow>
                  Callback error (RankWithScore (plus_one (element rs 1)) (element rs 0))))"

text \<open>The commands \<^verbatim>\<open>getRankWithScoreFor\<close> queues on its transaction.\<close>

definition getRankWithScoreFor_transaction :: "Leaderboard \<Rightarrow> string \<Rightarrow> command list" where
  "getRankWithScoreFor_transaction lb member =
     [ZSCORE (leaderboardName lb) member] @
     (if sortOrder lb = Descending then [ZRANK (leaderboardName lb) member]
      else [ZREVRANK (leaderboardName lb) member])"

definition getRankWithScoreFor ::
  "Leaderboard \<Rightarrow> 's RedisClient \<Rightarrow> string \<Rightarrow> 's \<Rightarrow> outcome \<times> 's" where
  "getRankWithScoreFor lb client member =
     transact client (getRankWithScoreFor_transaction lb member) getRankWithScoreFor_response"

text \<open>
  \<^verbatim>\<open>getPageFor\<close> (lines 238 to 262): a transaction of the one command \<^verbatim>\<open>ZRANK\<close>,
  whatever the sort order; the response reads \<^verbatim>\<open>replies[0]\<close> without a look at the
  error, takes \<^verbatim>\<open>null\<close> for rank 0 and adds one to any other reply.
\<close>

definition getPageFor_response ::
  "number \<Rightarrow> store_error option \<times> jsval list option \<Rightarrow> outcome" where
  "getPageFor_response psize =
     (\<lambda>(error, replies).
        case replies of
          None \<Rightarrow> Throw TypeError
        | Some rs \<Rightarrow>
            (let rank = element rs 0;
                 rank = (if is_nullish rank then Number (Fin 0) else plus_one rank);
                 result = ceil_div rank psize
             in Callback error result))"

definition getPageFor ::
  "Leaderboard \<Rightarrow> 's RedisClient \<Rightarrow> string \<Rightarrow> number option \<Rightarrow> 's \<Rightarrow> outcome \<times> 's" where
  "getPageFor lb client member param2 =
     (let psize = (case param2 of None \<Rightarrow> pageSize lb | Some p \<Rightarrow> p)
      in transact client [ZRANK (leaderboardName lb) member] (getPageFor_response psize))"

text \<open>
  \<^verbatim>\<open>getTop\<close> (lines 264 to 268) has an empty body: it sends nothing and never invokes
  its callback. \<open>None\<close> for the second parameter is the overload
  \<^verbatim>\<open>getTop(count, callback)\<close>.
\<close>

definition getTop ::
  "Leaderboard \<Rightarrow> 's RedisClient \<Rightarrow> number \<Rightarrow> number option \<Rightarrow> 's \<Rightarrow> outcome \<times> 's" where
  "getTop lb client param1 param2 s = (NoCallback, s)"

text \<open>The calls a user of the engine can make, and the engine and the client's state after one.\<close>

datatype operation =
    SetPageSize number
  | DeleteLeaderboard
  | RankMember string real
  | RemoveMemember string
  | MemberCount
  | MemberCountInRange real real
  | PageCount "number option"
  | GetRankFor string
  | GetScoreFor string
  | GetRankWithScoreFor string
  | GetPageFor string "number option"
  | GetTop number "number option"

fun perform :: "'s RedisClient \<Rightarrow> operation \<Rightarrow> Leaderboard \<times> 's \<Rightarrow> Leaderboard \<times> 's" where
  "perform client (SetPageSize v) (lb, s) = (set_pageSize lb v, s)"
| "perform client DeleteLeaderboard (lb, s) = (lb, snd (deleteLeaderboard lb client s))"
| "perform client (RankMember m x) (lb, s) = (lb, snd (rankMember lb client m x s))"
| "perform client (RemoveMemember m) (lb, s) = (lb, snd (removeMemember lb client m s))"
| "perform client MemberCount (lb, s) = (lb, snd (memberCount lb client s))"
| "perform client (MemberCountInRange lo hi) (lb, s) =
     (lb, snd (memberCountInRange lb client lo hi s))"
| "perform client (PageCount p) (lb, s) = (lb, snd (pageCount lb client p s))"
| "perform client (GetRankFor m) (lb, s) = (lb, snd (getRankFor lb client m s))"
| "perform client (GetScoreFor m) (lb, s) = (lb, snd (getScoreFor lb client m s))"
| "perform client (GetRankWithScoreFor m) (lb, s) = (lb, snd (getRankWithScoreFor lb client m s))"
| "perform client (GetPageFor m p) (lb, s) = (lb, snd (getPageFor lb client m p s))"
| "perform client (GetTop a b) (lb, s) = (lb, snd (getTop lb client a b s))"

section \<open>The ordered-set store\<close>

text \<open>
  Modelled from the spec: the ordered-set store behind the client (a Redis server), which is
  no part of the repository. Section 4.1 of the specification lists its primitives, each
  modelled below. A collection is a list of members with their scores, each member at most
  once; a database maps a name to its collection, the empty one for a name never written.
\<close>

type_synonym zset = "(string \<times> real) list"
type_synonym database = "string \<Rightarrow> zset"

text \<open>
  Modelled from the spec: \<^verbatim>\<open>add(collection, member, score)\<close>, an idempotent upsert. The
  store's code is missing; the score of a member it holds is overwritten in place, a new
  member is added.
\<close>

fun zadd :: "string \<Rightarrow> real \<Rightarrow> zset \<Rightarrow> zset" where
  "zadd m s [] = [(m, s)]"
| "zadd m s ((m', s') # z) = (if m' = m then (m, s) # z else (m', s') # zadd m s z)"

text \<open>Modelled from the spec: \<^verbatim>\<open>remove(collection, member)\<close> of the missing store.\<close>

definition zrem :: "string \<Rightarrow> zset \<Rightarrow> zset" where
  "zrem m z = filter (\<lambda>(m', s'). m' \<noteq> m) z"

text \<open>
  Modelled from the spec: \<^verbatim>\<open>score(collection, member)\<close> of the missing store, a number
  or absent.
\<close>

definition zscore :: "zset \<Rightarrow> string \<Rightarrow> real option" where
  "zscore z m = map_of z m"

text \<open>
  Modelled from the spec: the order of the missing store (section 3): by score, exact ties
  broken by the member's name, in lexicographic ascending order.
\<close>

definition before :: "string \<times> real \<Rightarrow> string \<times> real \<Rightarrow> bool" where
  "before a b = (snd a < snd b \<or> (snd a = snd b \<and> fst a < fst b))"

text \<open>
  Modelled from the spec: \<^verbatim>\<open>rankAscending(collection, member)\<close> of the missing store, the
  0-based position in ascending score order, or absent: the number of entries before the
  member's.
\<close>

definition zrank :: "zset \<Rightarrow> string \<Rightarrow> nat option" where
  "zrank z m =
     (case zscore z m of
        None \<Rightarrow> None
      | Some s \<Rightarrow> Some (length (filter (\<lambda>e. before e (m, s)) z)))"

text \<open>
  Modelled from the spec: \<^verbatim>\<open>rankDescending(collection, member)\<close> of the missing store, the
  0-based position in descending score order, or absent: the number of entries after the
  member's.
\<close>

definition zrevrank :: "zset \<Rightarrow> string \<Rightarrow> nat option" where
  "zrevrank z m =
     (case zscore z m of
        None \<Rightarrow> None
      | Some s \<Rightarrow> Some (length (filter (\<lambda>e. before (m, s) e) z)))"

text \<open>
  Modelled from the spec: \<^verbatim>\<open>countInRange(collection, min, max)\<close> of the missing store,
  with inclusive bounds.
\<close>

definition zcount :: "zset \<Rightarrow> real \<Rightarrow> real \<Rightarrow> nat" where
  "zcount z lo hi = length (filter (\<lambda>(m, s). lo \<le> s \<and> s \<le> hi) z)"

text \<open>
  Modelled from the spec: the replies of the missing store as the client library hands them
  to a callback: a count or a 0-based index as a number, a score as a string, absence as
  \<^verbatim>\<open>null\<close>. \<^verbatim>\<open>add\<close> answers with the number of members it created, \<^verbatim>\<open>remove\<close> and
  \<^verbatim>\<open>deleteCollection\<close> with the number they removed (0 or 1).
\<close>

definition integer_reply :: "nat \<Rightarrow> jsval" where
  "integer_reply n = Number (Fin (real n))"

definition index_reply :: "nat option \<Rightarrow> jsval" where
  "index_reply r = (case r of None \<Rightarrow> Null | Some i \<Rightarrow> integer_reply i)"

fun reply :: "command \<Rightarrow> database \<Rightarrow> jsval" where
  "reply (DEL k) d = integer_reply (if d k = [] then 0 else 1)"
| "reply (ZADD k s m) d = integer_reply (if zscore (d k) m = None then 1 else 0)"
| "reply (ZREM k m) d = integer_reply (if zscore (d k) m = None then 0 else 1)"
| "reply (ZCARD k) d = integer_reply (length (d k))"
| "reply (ZCOUNT k lo hi) d = integer_reply (zcount (d k) lo hi)"
| "reply (ZRANK k m) d = index_reply (zrank (d k) m)"
| "reply (ZREVRANK k m) d = index_reply (zrevrank (d k) m)"
| "reply (ZSCORE k m) d = (case zscore (d k) m of None \<Rightarrow> Null | Some s \<Rightarrow> ScoreString s)"

text \<open>Modelled from the spec: what a command leaves of the missing store's database.\<close>

fun effect :: "command \<Rightarrow> database \<Rightarrow> database" where
  "effect (DEL k) d = d(k := [])"
| "effect (ZADD k s m) d = d(k := zadd m s (d k))"
| "effect (ZREM k m) d = d(k := zrem m (d k))"
| "effect (ZCARD k) d = d"
| "effect (ZCOUNT k lo hi) d = d"
| "effect (ZRANK k m) d = d"
| "effect (ZREVRANK k m) d = d"
| "effect (ZSCORE k m) d = d"

text \<open>
  Modelled from the spec: \<^verbatim>\<open>transaction()\<close> of the missing store: the queued commands
  run in order as one unit and give the sequence of their replies.
\<close>

fun run :: "command list \<Rightarrow> database \<Rightarrow> jsval list \<times> database" where
  "run [] d = ([], d)"
| "run (c # cs) d = (case run cs (effect c d) of (rs, d') \<Rightarrow> (reply c d # rs, d'))"

text \<open>Modelled from the spec: the client of a store that answers every call.\<close>

definition redis :: "database RedisClient" where
  "redis =
     \<lparr> send = (\<lambda>c d. ((None, reply c d), effect c d)),
       exec = (\<lambda>cs d. (case run cs d of (rs, d') \<Rightarrow> ((None, Some rs), d'))) \<rparr>"

text \<open>
  Modelled from the spec: the client of a store that cannot be reached (section 4.1: the
  adapter surfaces the failures of the store, connectivity and protocol, unmodified). Every
  call fails: the callback gets the error and no reply.
\<close>

definition unreachable :: "store_error \<Rightarrow> 's RedisClient" where
  "unreachable e =
     \<lparr> send = (\<lambda>c s. ((Some e, Undefined), s)),
       exec = (\<lambda>cs s. ((Some e, None), s)) \<rparr>"

section \<open>The leaderboard of the specification's examples\<close>

definition empty_database :: database where
  "empty_database = (\<lambda>k. [])"

definition scores :: "Leaderboard \<Rightarrow> zset \<Rightarrow> database" where
  "scores lb z = empty_database(leaderboardName lb := z)"

definition example_options :: "number option \<Rightarrow> number option \<Rightarrow> ILeaderboardOptions" where
  "example_options p d = \<lparr> opt_name = None, opt_pageSize = p, opt_sortOrder = d \<rparr>"

definition example_redis_options :: IRedisOptions where
  "example_redis_options = \<lparr> host = None, port = None, db = None \<rparr>"

definition board :: "number \<Rightarrow> Leaderboard" where
  "board d =
     \<lparr> leaderboardName = ''Scores'', pageSize = DEFAULT_PAGE_SIZE, sortOrder = d,
       redisHost = DEFAULT_REDIS_HOST, redisPort = DEFAULT_REDIS_PORT \<rparr>"

definition abc :: zset where
  "abc = [(''A'', 10), (''B'', 20), (''C'', 30)]"

section \<open>The engine on the store\<close>

lemma send_redis: "send redis c d = ((None, reply c d), effect c d)"
  by (simp add: redis_def)

lemma exec_redis: "exec redis cs d = ((None, Some (fst (run cs d))), snd (run cs d))"
  by (simp add: redis_def split: prod.splits)

lemma invoke_redis: "invoke redis c k d = (k (None, reply c d), effect c d)"
  by (simp add: invoke_def send_redis)

lemma transact_redis:
  "transact redis cs k d = (k (None, Some (fst (run cs d))), snd (run cs d))"
  by (simp add: transact_def exec_redis)

lemma invoke_unreachable: "invoke (unreachable e) c k s = (k (Some e, Undefined), s)"
  by (simp add: invoke_def unreachable_def)

lemma transact_unreachable: "transact (unreachable e) cs k s = (k (Some e, None), s)"
  by (simp add: transact_def unreachable_def)

text \<open>The leaderboards of the examples are what the constructor builds.\<close>

lemma constructor_board:
  "constructor ''Scores'' (Some (example_options None None)) (Some example_redis_options) =
     Inr (board Ascending)"
  "constructor ''Scores'' (Some (example_options None (Some Descending)))
     (Some example_redis_options) = Inr (board Descending)"
  by (simp_all add: constructor_def example_options_def example_redis_options_def board_def)

text \<open>The collection of the examples is what three calls of \<^verbatim>\<open>rankMember\<close> leave.\<close>

lemma rankMember_abc:
  "snd (rankMember (board ord) redis ''C'' 30
     (snd (rankMember (board ord) redis ''B'' 20
       (snd (rankMember (board ord) redis ''A'' 10 empty_database))))) = scores (board ord) abc"
  by (simp add: rankMember_def invoke_redis scores_def abc_def empty_database_def board_def
      fun_eq_iff)

subsection \<open>Facts about collections\<close>

lemma zscore_member: "distinct (map fst z) \<Longrightarrow> (m, s) \<in> set z \<Longrightarrow> zscore z m = Some s"
  by (simp add: zscore_def)

lemma zscore_absent: "m \<notin> fst ` set z \<Longrightarrow> zscore z m = None"
  by (simp add: zscore_def map_of_eq_None_iff)

lemma zscore_present: "m \<in> fst ` set z \<Longrightarrow> \<exists>s. zscore z m = Some s"
  by (cases "zscore z m") (auto simp: zscore_def map_of_eq_None_iff)

lemma count_filter: "distinct (map fst z) \<Longrightarrow> length (filter P z) = card ({e. P e} \<inter> set z)"
  by (simp add: distinct_length_filter distinct_map)

lemma zrank_card:
  "distinct (map fst z) \<Longrightarrow> (m, s) \<in> set z \<Longrightarrow>
   zrank z m = Some (card ({e. before e (m, s)} \<inter> set z))"
  by (simp add: zrank_def zscore_member count_filter)

lemma zrevrank_card:
  "distinct (map fst z) \<Longrightarrow> (m, s) \<in> set z \<Longrightarrow>
   zrevrank z m = Some (card ({e. before (m, s) e} \<inter> set z))"
  by (simp add: zrevrank_def zscore_member count_filter)

lemma abc_zrank:
  assumes "distinct (map fst z)" and "set z = {(''A'', 10), (''B'', 20), (''C'', 30)}"
  shows "zrank z ''A'' = Some 0" and "zrank z ''B'' = Some 1" and "zrank z ''C'' = Some 2"
  using assms by (simp_all add: zrank_card before_def)

lemma abc_zrevrank:
  assumes "distinct (map fst z)" and "set z = {(''A'', 10), (''B'', 20), (''C'', 30)}"
  shows "zrevrank z ''A'' = Some 2" and "zrevrank z ''B'' = Some 1"
    and "zrevrank z ''C'' = Some 0"
  using assms by (simp_all add: zrevrank_card before_def)

lemma zscore_zadd: "zscore (zadd m s z) m = Some s"
  by (induction z) (auto simp: zscore_def)

lemma zscore_zadd_other: "m' \<noteq> m \<Longrightarrow> zscore (zadd m s z) m' = zscore z m'"
  by (induction z) (auto simp: zscore_def)

lemma map_fst_zadd:
  "map fst (zadd m s z) = (if m \<in> set (map fst z) then map fst z else map fst z @ [m])"
  by (induction z) force+

lemma members_zadd: "fst ` set (zadd m s z) = insert m (fst ` set z)"
proof -
  have "set (map fst (zadd m s z)) = insert m (set (map fst z))"
    by (auto simp: map_fst_zadd)
  then show ?thesis by simp
qed

lemma distinct_zadd: "distinct (map fst z) \<Longrightarrow> distinct (map fst (zadd m s z))"
  by (simp add: map_fst_zadd)

lemma length_zadd_present: "m \<in> fst ` set z \<Longrightarrow> length (zadd m s z) = length z"
proof -
  assume "m \<in> fst ` set z"
  then have "length (map fst (zadd m s z)) = length (map fst z)"
    by (simp add: map_fst_zadd)
  then show ?thesis by simp
qed

lemma one_entry:
  "distinct (map fst z) \<Longrightarrow> m \<in> fst ` set z \<Longrightarrow> length (filter (\<lambda>e. fst e = m) z) = 1"
proof (induction z)
  case Nil
  then show ?case by simp
next
  case (Cons e z)
  show ?case
  proof (cases "fst e = m")
    case True
    with Cons.prems have "m \<notin> fst ` set z" by simp
    then have "filter (\<lambda>e. fst e = m) z = []"
      by (auto simp: filter_empty_conv)
    with True show ?thesis by simp
  next
    case False
    with Cons show ?thesis by auto
  qed
qed

lemma distinct_zrem: "distinct (map fst z) \<Longrightarrow> distinct (map fst (zrem m z))"
  by (simp add: zrem_def distinct_map_filter)

text \<open>Every command keeps each member at most once in every collection.\<close>

lemma effect_distinct:
  "distinct (map fst (d k)) \<Longrightarrow> distinct (map fst (effect c d k))"
  by (cases c) (auto simp: distinct_zadd distinct_zrem)

subsection \<open>The queries on the store\<close>

lemma getRankFor_response_index:
  "getRankFor_response (None, index_reply r) =
     Callback None (case r of None \<Rightarrow> Null | Some i \<Rightarrow> Number (Fin (real i + 1)))"
  by (cases r) (simp_all add: getRankFor_response_def index_reply_def integer_reply_def
      is_nullish_def)

lemma getRankFor_redis:
  "fst (getRankFor lb redis m d) =
     Callback None
       (case (if sortOrder lb = Descending then zrank (d (leaderboardName lb)) m
              else zrevrank (d (leaderboardName lb)) m) of
          None \<Rightarrow> Null
        | Some i \<Rightarrow> Number (Fin (real i + 1)))"
  by (simp add: getRankFor_def invoke_redis getRankFor_response_index)

lemma getScoreFor_redis:
  "fst (getScoreFor lb redis m d) =
     Callback None
       (case zscore (d (leaderboardName lb)) m of
          None \<Rightarrow> Number NaN
        | Some s \<Rightarrow> Number (Fin s))"
  by (simp add: getScoreFor_def invoke_redis split: option.splits)

lemma getRankWithScoreFor_redis:
  "fst (getRankWithScoreFor lb redis m d) =
     Callback None
       (RankWithScore
          (plus_one (index_reply
             (if sortOrder lb = Descending then zrank (d (leaderboardName lb)) m
              else zrevrank (d (leaderboardName lb)) m)))
          (case zscore (d (leaderboardName lb)) m of None \<Rightarrow> Null | Some s \<Rightarrow> ScoreString s))"
  by (simp add: getRankWithScoreFor_def getRankWithScoreFor_transaction_def transact_redis
      getRankWithScoreFor_response_def element_def)

lemma getPageFor_redis:
  "fst (getPageFor lb redis m param2 d) =
     Callback None
       (ceil_div
          (case zrank (d (leaderboardName lb)) m of
             None \<Rightarrow> Number (Fin 0)
           | Some i \<Rightarrow> Number (Fin (real i + 1)))
          (case param2 of None \<Rightarrow> pageSize lb | Some p \<Rightarrow> p))"
  by (simp add: getPageFor_def transact_redis getPageFor_response_def element_def
      index_reply_def integer_reply_def is_nullish_def Let_def split: option.splits)

lemma pageCount_reply:
  "fst (send client (ZCARD (leaderboardName lb)) s) = (error, result) \<Longrightarrow>
   fst (pageCount lb client param1 s) =
     Callback error (ceil_div result (case param1 of None \<Rightarrow> pageSize lb | Some p \<Rightarrow> p))"
  by (auto simp: pageCount_def invoke_def Let_def split: prod.splits)

lemma pageCount_redis:
  "fst (pageCount lb redis param1 d) =
     Callback None
       (ceil_div (Number (Fin (real (length (d (leaderboardName lb))))))
          (case param1 of None \<Rightarrow> pageSize lb | Some p \<Rightarrow> p))"
  by (simp add: pageCount_def invoke_redis integer_reply_def Let_def)

text \<open>A page size that is no integer is outside what the model computes.\<close>

lemma ceil_div_fraction: "ceil_div (Number (Fin 3)) (Fin (3 / 10)) = Unmodelled"
  by (simp add: ceil_div_def safe_integer_def)

lemma safe_integer_of_nat: "n < 9007199254740992 \<Longrightarrow> safe_integer (real n)"
  by (simp add: safe_integer_def)

lemma ceil_div_positive:
  "0 < p \<Longrightarrow> p < 9007199254740992 \<Longrightarrow> n < 9007199254740992 \<Longrightarrow>
   ceil_div (Number (Fin (real n))) (Fin (real p)) = Number (Fin (of_int \<lceil>real n / real p\<rceil>))"
  by (simp add: ceil_div_def safe_integer_of_nat)

text \<open>
  What the four queries answer for a member the leaderboard does not hold, and for one it
  holds: \<^verbatim>\<open>getRankFor\<close> alone tells the absent member by a \<^verbatim>\<open>null\<close>.
\<close>

lemma queries_absent:
  assumes "m \<notin> fst ` set (d (leaderboardName lb))"
  shows "fst (getRankFor lb redis m d) = Callback None Null"
    and "fst (getScoreFor lb redis m d) = Callback None (Number NaN)"
    and "fst (getRankWithScoreFor lb redis m d) =
           Callback None (RankWithScore (Number (Fin 1)) Null)"
    and "0 < p \<Longrightarrow> p < 9007199254740992 \<Longrightarrow>
           fst (getPageFor lb redis m (Some (Fin (real p))) d) = Callback None (Number (Fin 0))"
  using assms ceil_div_positive [of p 0]
  by (simp_all add: getRankFor_redis getScoreFor_redis getRankWithScoreFor_redis
      getPageFor_redis zrank_def zrevrank_def zscore_absent index_reply_def)

lemma zrank_bound: "zrank z m = Some i \<Longrightarrow> i < length z"
proof -
  assume r: "zrank z m = Some i"
  then obtain s where s: "zscore z m = Some s"
    by (auto simp: zrank_def split: option.splits)
  then have "(m, s) \<in> set z"
    by (simp add: zscore_def map_of_SomeD)
  moreover have "\<not> before (m, s) (m, s)"
    by (simp add: before_def)
  ultimately have "length (filter (\<lambda>e. before e (m, s)) z) < length z"
    by (auto intro: length_filter_less)
  with r s show ?thesis by (simp add: zrank_def)
qed

lemma queries_present:
  assumes "zscore (d (leaderboardName lb)) m = Some s"
  shows "\<exists>i. fst (getRankFor lb redis m d) = Callback None (Number (Fin (real i + 1))) \<and>
           fst (getRankWithScoreFor lb redis m d) =
             Callback None (RankWithScore (Number (Fin (real i + 1))) (ScoreString s))"
    and "fst (getScoreFor lb redis m d) = Callback None (parseFloat (ScoreString s))"
    and "0 < p \<Longrightarrow> p < 9007199254740992 \<Longrightarrow>
         length (d (leaderboardName lb)) < 9007199254740992 \<Longrightarrow>
         \<exists>i. zrank (d (leaderboardName lb)) m = Some i \<and>
           fst (getPageFor lb redis m (Some (Fin (real p))) d) =
             Callback None (Number (Fin (of_int \<lceil>(real i + 1) / real p\<rceil>))) \<and>
           0 < \<lceil>(real i + 1) / real p\<rceil>"
proof -
  show "\<exists>i. fst (getRankFor lb redis m d) = Callback None (Number (Fin (real i + 1))) \<and>
      fst (getRankWithScoreFor lb redis m d) =
        Callback None (RankWithScore (Number (Fin (real i + 1))) (ScoreString s))"
    using assms
    by (simp add: getRankFor_redis getRankWithScoreFor_redis zrank_def zrevrank_def
        index_reply_def integer_reply_def)
  show "fst (getScoreFor lb redis m d) = Callback None (parseFloat (ScoreString s))"
    using assms by (simp add: getScoreFor_redis)
  show "\<exists>i. zrank (d (leaderboardName lb)) m = Some i \<and>
      fst (getPageFor lb redis m (Some (Fin (real p))) d) =
        Callback None (Number (Fin (of_int \<lceil>(real i + 1) / real p\<rceil>))) \<and>
      0 < \<lceil>(real i + 1) / real p\<rceil>"
    if p: "0 < p" "p < 9007199254740992"
      and n: "length (d (leaderboardName lb)) < 9007199254740992"
  proof -
    obtain i where i: "zrank (d (leaderboardName lb)) m = Some i"
      using assms by (simp add: zrank_def)
    have bound: "Suc i < 9007199254740992"
      using zrank_bound [OF i] n by simp
    have "ceil_div (Number (Fin (real (Suc i)))) (Fin (real p)) =
        Number (Fin (of_int \<lceil>real (Suc i) / real p\<rceil>))"
      by (rule ceil_div_positive [OF p(1) p(2) bound])
    then have "ceil_div (Number (Fin (real i + 1))) (Fin (real p)) =
        Number (Fin (of_int \<lceil>(real i + 1) / real p\<rceil>))"
      by (simp add: add.commute)
    then have "fst (getPageFor lb redis m (Some (Fin (real p))) d) =
        Callback None (Number (Fin (of_int \<lceil>(real i + 1) / real p\<rceil>)))"
      using i by (simp add: getPageFor_redis)
    moreover have "0 < (real i + 1) / real p"
      using p by (simp add: add_pos_nonneg)
    then have "0 < \<lceil>(real i + 1) / real p\<rceil>"
      by (simp only: zero_less_ceiling)
    ultimately show ?thesis using i by blast
  qed
qed

subsection \<open>The page size\<close>

lemma constructor_succeeds: "\<exists>lb. constructor name (Some lo) (Some ro) = Inr lb"
  by (simp add: constructor_def)

lemma constructor_pageSize:
  "constructor name (Some lo) (Some ro) = Inr lb \<Longrightarrow>
   pageSize lb =
     (case opt_pageSize lo of
        None \<Rightarrow> Fin 50
      | Some q \<Rightarrow> if falsy (Some q) \<or> negative q then Fin 50 else q)"
  by (auto simp: constructor_def)

lemma constructor_omitted_options:
  "constructor name leaderboardOptions None = Inl TypeError"
  "constructor name None redisOptions = Inl TypeError"
  by (simp_all add: constructor_def split: option.splits)

lemma perform_pageSize:
  "pageSize (fst (perform client op (lb, s))) =
     (case op of SetPageSize v \<Rightarrow> v | _ \<Rightarrow> pageSize lb)"
  by (cases op) (auto simp: set_pageSize_def strict_neq_def)

lemma kept_is_positive: "\<not> falsy (Some q) \<Longrightarrow> \<not> negative q \<Longrightarrow> positive q"
  by (cases q) auto

lemma positive_is_kept: "positive q \<Longrightarrow> \<not> falsy (Some q) \<and> \<not> negative q"
  by (cases q) auto

section \<open>The claims\<close>

text \<open>
  C1 (as the code has it). On a leaderboard whose members are exactly A with score 10, B
  with 20 and C with 30, \<^verbatim>\<open>getRankFor\<close> returns 1-based ranks that run against the name
  of the configured sort order: with \<^verbatim>\<open>sortOrder\<close> Ascending the ranks of A, B and C are
  3, 2 and 1 (the highest score is rank 1), with Descending they are 1, 2 and 3.
\<close>

theorem getRankFor_example_ranks:
  assumes "distinct (map fst (d (leaderboardName lb)))"
    and "set (d (leaderboardName lb)) = {(''A'', 10), (''B'', 20), (''C'', 30)}"
  shows "(sortOrder lb = Ascending \<longrightarrow>
            fst (getRankFor lb redis ''A'' d) = Callback None (Number (Fin 3)) \<and>
            fst (getRankFor lb redis ''B'' d) = Callback None (Number (Fin 2)) \<and>
            fst (getRankFor lb redis ''C'' d) = Callback None (Number (Fin 1))) \<and>
         (sortOrder lb = Descending \<longrightarrow>
            fst (getRankFor lb redis ''A'' d) = Callback None (Number (Fin 1)) \<and>
            fst (getRankFor lb redis ''B'' d) = Callback None (Number (Fin 2)) \<and>
            fst (getRankFor lb redis ''C'' d) = Callback None (Number (Fin 3)))"
  by (simp add: getRankFor_redis abc_zrank [OF assms] abc_zrevrank [OF assms])

theorem getRankFor_example_ranks_witness:
  "fst (getRankFor (board Ascending) redis ''A'' (scores (board Ascending) abc)) =
     Callback None (Number (Fin 3)) \<and>
   fst (getRankFor (board Ascending) redis ''B'' (scores (board Ascending) abc)) =
     Callback None (Number (Fin 2)) \<and>
   fst (getRankFor (board Ascending) redis ''C'' (scores (board Ascending) abc)) =
     Callback None (Number (Fin 1)) \<and>
   fst (getRankFor (board Descending) redis ''A'' (scores (board Descending) abc)) =
     Callback None (Number (Fin 1)) \<and>
   fst (getRankFor (board Descending) redis ''B'' (scores (board Descending) abc)) =
     Callback None (Number (Fin 2)) \<and>
   fst (getRankFor (board Descending) redis ''C'' (scores (board Descending) abc)) =
     Callback None (Number (Fin 3))"
  using getRankFor_example_ranks [of "scores (board Ascending) abc" "board Ascending"]
    getRankFor_example_ranks [of "scores (board Descending) abc" "board Descending"]
  by (simp add: scores_def abc_def board_def)

text \<open>
  C1 as stated fails: on the Ascending leaderboard of A:10, B:20, C:30 the rank of A is 3,
  not 1, and on the Descending one it is 1, not 3.
\<close>

theorem getRankFor_example_counterexample:
  "fst (getRankFor (board Ascending) redis ''A'' (scores (board Ascending) abc)) \<noteq>
     Callback None (Number (Fin 1)) \<and>
   fst (getRankFor (board Descending) redis ''A'' (scores (board Descending) abc)) \<noteq>
     Callback None (Number (Fin 3))"
  by (simp add: getRankFor_redis scores_def abc_def board_def zrank_def zrevrank_def
      zscore_def before_def)

text \<open>
  C2. In \<^verbatim>\<open>getRankFor\<close> and in \<^verbatim>\<open>getRankWithScoreFor\<close> the rank command that reaches
  the client runs against the configured sort order: on a Descending leaderboard the
  client is sent \<^verbatim>\<open>ZRANK\<close> (the position in ascending score order), on an Ascending one
  \<^verbatim>\<open>ZREVRANK\<close> (the position in descending score order), alone in \<^verbatim>\<open>getRankFor\<close> and
  after \<^verbatim>\<open>ZSCORE\<close> in the transaction of \<^verbatim>\<open>getRankWithScoreFor\<close>. The outcome is the
  response to what the client answers to that command, and the state is the one the
  client leaves after it, whatever the client.
\<close>

theorem rank_primitive_opposes_sortOrder:
  "(sortOrder lb = Descending \<longrightarrow>
      getRankFor lb client member s =
        (getRankFor_response (fst (send client (ZRANK (leaderboardName lb) member) s)),
         snd (send client (ZRANK (leaderboardName lb) member) s)) \<and>
      getRankWithScoreFor lb client member s =
        (getRankWithScoreFor_response
           (fst (exec client
              [ZSCORE (leaderboardName lb) member, ZRANK (leaderboardName lb) member] s)),
         snd (exec client
           [ZSCORE (leaderboardName lb) member, ZRANK (leaderboardName lb) member] s))) \<and>
   (sortOrder lb = Ascending \<longrightarrow>
      getRankFor lb client member s =
        (getRankFor_response (fst (send client (ZREVRANK (leaderboardName lb) member) s)),
         snd (send client (ZREVRANK (leaderboardName lb) member) s)) \<and>
      getRankWithScoreFor lb client member s =
        (getRankWithScoreFor_response
           (fst (exec client
              [ZSCORE (leaderboardName lb) member, ZREVRANK (leaderboardName lb) member] s)),
         snd (exec client
           [ZSCORE (leaderboardName lb) member, ZREVRANK (leaderboardName lb) member] s)))"
  by (simp add: getRankFor_def getRankWithScoreFor_def getRankWithScoreFor_transaction_def
      invoke_def transact_def split: prod.splits)

theorem rank_primitive_opposes_sortOrder_witness:
  "getRankFor (board Descending) redis ''A'' (scores (board Descending) abc) =
     (getRankFor_response (None, reply (ZRANK ''Scores'' ''A'') (scores (board Descending) abc)),
      scores (board Descending) abc) \<and>
   getRankWithScoreFor (board Descending) redis ''A'' (scores (board Descending) abc) =
     (getRankWithScoreFor_response
        (None, Some [reply (ZSCORE ''Scores'' ''A'') (scores (board Descending) abc),
                     reply (ZRANK ''Scores'' ''A'') (scores (board Descending) abc)]),
      scores (board Descending) abc) \<and>
   getRankFor (board Ascending) redis ''A'' (scores (board Ascending) abc) =
     (getRankFor_response (None, reply (ZREVRANK ''Scores'' ''A'') (scores (board Ascending) abc)),
      scores (board Ascending) abc) \<and>
   getRankWithScoreFor (board Ascending) redis ''A'' (scores (board Ascending) abc) =
     (getRankWithScoreFor_response
        (None, Some [reply (ZSCORE ''Scores'' ''A'') (scores (board Ascending) abc),
                     reply (ZREVRANK ''Scores'' ''A'') (scores (board Ascending) abc)]),
      scores (board Ascending) abc)"
  using rank_primitive_opposes_sortOrder
      [of "board Descending" redis "''A''" "scores (board Descending) abc"]
    rank_primitive_opposes_sortOrder
      [of "board Ascending" redis "''A''" "scores (board Ascending) abc"]
  by (simp add: board_def send_redis exec_redis)

text \<open>
  C3 fails on the code at an absent member: for Z on the leaderboard of A:10, B:20, C:30,
  \<^verbatim>\<open>getRankWithScoreFor\<close> delivers the object \<^verbatim>\<open>{rank: 1, score: null}\<close> (\<^verbatim>\<open>null + 1\<close>
  is 1), where \<^verbatim>\<open>getRankFor\<close> delivers \<^verbatim>\<open>null\<close> and \<^verbatim>\<open>getScoreFor\<close> delivers
  \<^verbatim>\<open>NaN\<close>.
\<close>

theorem getRankWithScoreFor_absent_member:
  "fst (getRankWithScoreFor (board Ascending) redis ''Z'' (scores (board Ascending) abc)) =
     Callback None (RankWithScore (Number (Fin 1)) Null) \<and>
   fst (getRankFor (board Ascending) redis ''Z'' (scores (board Ascending) abc)) =
     Callback None Null \<and>
   fst (getScoreFor (board Ascending) redis ''Z'' (scores (board Ascending) abc)) =
     Callback None (Number NaN)"
  by (simp add: getRankWithScoreFor_redis getRankFor_redis getScoreFor_redis scores_def
      abc_def board_def zrank_def zrevrank_def zscore_def index_reply_def)

text \<open>
  C4 fails on the code for the score: for the absent member Z on the leaderboard of A:10,
  B:20, C:30, \<^verbatim>\<open>getScoreFor\<close> delivers \<^verbatim>\<open>parseFloat(null)\<close>, which is \<^verbatim>\<open>NaN\<close> and not
  \<^verbatim>\<open>null\<close>.
\<close>

theorem getScoreFor_absent_member:
  "fst (getScoreFor (board Ascending) redis ''Z'' (scores (board Ascending) abc)) =
     Callback None (Number NaN) \<and>
   fst (getScoreFor (board Ascending) redis ''Z'' (scores (board Ascending) abc)) \<noteq>
     Callback None Null"
  by (simp add: getScoreFor_redis scores_def abc_def board_def zscore_def)

text \<open>
  C5. Whatever the client and the member: when the store answers the score query with an
  error, \<^verbatim>\<open>getScoreFor\<close> calls back with no error and \<^verbatim>\<open>null\<close>, and when it answers the
  transaction with an error, so does \<^verbatim>\<open>getRankWithScoreFor\<close>; when the store answers
  without an error, \<^verbatim>\<open>getScoreFor\<close> delivers \<^verbatim>\<open>parseFloat\<close> of the reply and
  \<^verbatim>\<open>getRankWithScoreFor\<close> the pair of the second reply plus one and the first reply.
\<close>

theorem store_error_becomes_null:
  "(fst (send client (ZSCORE (leaderboardName lb) member) s) = (Some e, r) \<longrightarrow>
      fst (getScoreFor lb client member s) = Callback None Null) \<and>
   (fst (exec client (getRankWithScoreFor_transaction lb member) s) = (Some e, rs) \<longrightarrow>
      fst (getRankWithScoreFor lb client member s) = Callback None Null) \<and>
   (fst (send client (ZSCORE (leaderboardName lb) member) s) = (None, r) \<longrightarrow>
      fst (getScoreFor lb client member s) = Callback None (parseFloat r)) \<and>
   (fst (exec client (getRankWithScoreFor_transaction lb member) s) = (None, Some replies) \<longrightarrow>
      fst (getRankWithScoreFor lb client member s) =
        Callback None (RankWithScore (plus_one (element replies 1)) (element replies 0)))"
  by (auto simp: getScoreFor_def getRankWithScoreFor_def invoke_def transact_def
      getRankWithScoreFor_response_def split: prod.splits)

theorem store_error_becomes_null_witness:
  "fst (getScoreFor (board Ascending) (unreachable (StoreError ''ECONNREFUSED'')) ''B''
     (scores (board Ascending) abc)) = Callback None Null \<and>
   fst (getRankWithScoreFor (board Ascending) (unreachable (StoreError ''ECONNREFUSED'')) ''B''
     (scores (board Ascending) abc)) = Callback None Null \<and>
   fst (getScoreFor (board Ascending) redis ''B'' (scores (board Ascending) abc)) =
     Callback None (Number (Fin 20)) \<and>
   fst (getRankWithScoreFor (board Ascending) redis ''B'' (scores (board Ascending) abc)) =
     Callback None (RankWithScore (Number (Fin 2)) (ScoreString 20))"
  using store_error_becomes_null
    [of "unreachable (StoreError ''ECONNREFUSED'')" "board Ascending" "''B''"
      "scores (board Ascending) abc" "StoreError ''ECONNREFUSED''" Undefined None]
    store_error_becomes_null
    [of redis "board Ascending" "''B''" "scores (board Ascending) abc" _ "ScoreString 20" _
      "[ScoreString 20, Number (Fin 1)]"]
  by (simp add: unreachable_def redis_def getRankWithScoreFor_transaction_def board_def
      scores_def abc_def empty_database_def zscore_def zrevrank_def before_def
      index_reply_def integer_reply_def element_def)

text \<open>
  C6 fails on the code for one sort order: \<^verbatim>\<open>getPageFor\<close> always asks for the position in
  ascending score order, whatever the configured sort order, so on the Ascending
  leaderboard of A:10, B:20, C:30, where \<^verbatim>\<open>getRankFor\<close> ranks A third, \<^verbatim>\<open>getPageFor\<close>
  with pages of one member puts A on page 1 and not on page 3; on the Descending
  leaderboard the two agree.
\<close>

theorem getPageFor_ignores_sortOrder:
  "fst (getRankFor (board Ascending) redis ''A'' (scores (board Ascending) abc)) =
     Callback None (Number (Fin 3)) \<and>
   fst (getPageFor (board Ascending) redis ''A'' (Some (Fin 1)) (scores (board Ascending) abc)) =
     Callback None (Number (Fin 1)) \<and>
   fst (getRankFor (board Descending) redis ''A'' (scores (board Descending) abc)) =
     Callback None (Number (Fin 1)) \<and>
   fst (getPageFor (board Descending) redis ''A'' (Some (Fin 1))
     (scores (board Descending) abc)) = Callback None (Number (Fin 1))"
  by (simp add: getRankFor_redis getPageFor_redis scores_def abc_def board_def zrank_def
      zrevrank_def zscore_def before_def ceil_div_def safe_integer_def)

text \<open>
  C7. When the store reports \<open>n\<close> members for the leaderboard, and for a page size that is a
  positive integer \<open>p\<close>, given as the argument or, without an argument, configured,
  \<^verbatim>\<open>pageCount\<close> delivers the ceiling of \<open>n / p\<close>: 0 for an empty leaderboard, 1 when \<open>n\<close>
  is \<open>p\<close>, 2 when \<open>n\<close> is \<open>p + 1\<close>. Both numbers are below \<open>2 ^ 53\<close>, where doubles hold
  every integer. This holds for every client; on the store the number reported is the
  number of members (\<open>reply (ZCARD k) d\<close>).
\<close>

theorem pageCount_is_ceiling:
  assumes "0 < p" and "p < 9007199254740992" and "n < 9007199254740992"
    and "param1 = Some (Fin (real p)) \<or> (param1 = None \<and> pageSize lb = Fin (real p))"
    and "fst (send client (ZCARD (leaderboardName lb)) s) = (error, Number (Fin (real n)))"
  shows "fst (pageCount lb client param1 s) =
           Callback error (Number (Fin (of_int \<lceil>real n / real p\<rceil>))) \<and>
         (n = 0 \<longrightarrow> fst (pageCount lb client param1 s) = Callback error (Number (Fin 0))) \<and>
         (n = p \<longrightarrow> fst (pageCount lb client param1 s) = Callback error (Number (Fin 1))) \<and>
         (n = p + 1 \<longrightarrow> fst (pageCount lb client param1 s) = Callback error (Number (Fin 2)))"
proof -
  have psize: "(case param1 of None \<Rightarrow> pageSize lb | Some q \<Rightarrow> q) = Fin (real p)"
    using assms(4) by auto
  have count: "fst (pageCount lb client param1 s) =
      Callback error (Number (Fin (of_int \<lceil>real n / real p\<rceil>)))"
    by (simp only: pageCount_reply [OF assms(5)] psize
        ceil_div_positive [OF assms(1) assms(2) assms(3)])
  have one: "n = p \<Longrightarrow> \<lceil>real n / real p\<rceil> = 1"
    using assms(1) by simp
  have two: "\<lceil>real n / real p\<rceil> = 2" if eq: "n = p + 1"
  proof -
    have "1 / real p \<le> 1" and "0 < 1 / real p"
      using assms(1) by simp_all
    moreover have "real n / real p = 1 + 1 / real p"
      using assms(1) eq by (simp add: field_simps)
    ultimately show ?thesis by (simp add: ceiling_eq_iff)
  qed
  show ?thesis using count one two by simp
qed

theorem pageCount_is_ceiling_witness:
  "fst (pageCount (board Ascending) redis None empty_database) = Callback None (Number (Fin 0)) \<and>
   fst (pageCount (board Ascending) redis (Some (Fin 3)) (scores (board Ascending) abc)) =
     Callback None (Number (Fin 1)) \<and>
   fst (pageCount (board Ascending) redis (Some (Fin 2)) (scores (board Ascending) abc)) =
     Callback None (Number (Fin 2))"
  using pageCount_is_ceiling [of 50 0 None "board Ascending" redis empty_database None]
    pageCount_is_ceiling [of 3 3 "Some (Fin 3)" "board Ascending" redis
      "scores (board Ascending) abc" None]
    pageCount_is_ceiling [of 2 3 "Some (Fin 2)" "board Ascending" redis
      "scores (board Ascending) abc" None]
  by (simp add: send_redis integer_reply_def board_def scores_def abc_def empty_database_def)

text \<open>
  C8. On the store, \<^verbatim>\<open>rankMember(m, s)\<close> followed by \<^verbatim>\<open>getScoreFor(m)\<close> delivers \<open>s\<close>;
  and when \<open>m\<close> is a member already, \<^verbatim>\<open>rankMember(m, s)\<close> leaves the leaderboard with one
  entry for \<open>m\<close> and \<^verbatim>\<open>memberCount\<close> as it was.
\<close>

theorem rankMember_getScoreFor_roundtrip:
  "fst (getScoreFor lb redis m (snd (rankMember lb redis m s d))) =
     Callback None (Number (Fin s)) \<and>
   (distinct (map fst (d (leaderboardName lb))) \<and> m \<in> fst ` set (d (leaderboardName lb)) \<longrightarrow>
      fst (memberCount lb redis (snd (rankMember lb redis m s d))) =
        fst (memberCount lb redis d) \<and>
      length (filter (\<lambda>e. fst e = m) (snd (rankMember lb redis m s d) (leaderboardName lb))) = 1)"
  by (simp add: getScoreFor_redis rankMember_def memberCount_def invoke_redis zscore_zadd
      length_zadd_present one_entry distinct_zadd members_zadd)

theorem rankMember_getScoreFor_roundtrip_witness:
  "fst (getScoreFor (board Ascending) redis ''B''
     (snd (rankMember (board Ascending) redis ''B'' 25 (scores (board Ascending) abc)))) =
     Callback None (Number (Fin 25)) \<and>
   fst (memberCount (board Ascending) redis
     (snd (rankMember (board Ascending) redis ''B'' 25 (scores (board Ascending) abc)))) =
     Callback None (Number (Fin 3)) \<and>
   snd (rankMember (board Ascending) redis ''B'' 25 (scores (board Ascending) abc)) ''Scores'' =
     [(''A'', 10), (''B'', 25), (''C'', 30)]"
  using rankMember_getScoreFor_roundtrip
    [of "board Ascending" "''B''" 25 "scores (board Ascending) abc"]
  by (simp add: board_def scores_def abc_def memberCount_def rankMember_def invoke_redis
      integer_reply_def)

text \<open>
  C9 fails on the code at the setter: the constructor replaces a page size of 0 by the
  default 50, and the \<^verbatim>\<open>pageSize\<close> setter, called with 0 on the leaderboard the
  constructor built, stores the 0, which is not positive. The constructor also fails
  with a \<^verbatim>\<open>TypeError\<close> when the option objects are left out, as in the second example of
  its own comment.
\<close>

theorem pageSize_setter_stores_zero:
  "constructor ''Scores'' (Some (example_options (Some (Fin 0)) None))
     (Some example_redis_options) = Inr (board Ascending) \<and>
   pageSize (board Ascending) = Fin 50 \<and>
   pageSize (fst (perform redis (SetPageSize (Fin 0)) (board Ascending, empty_database))) =
     Fin 0 \<and>
   \<not> positive (pageSize (fst (perform redis (SetPageSize (Fin 0))
       (board Ascending, empty_database)))) \<and>
   constructor ''Scores'' None None = Inl TypeError"
  by (simp add: set_pageSize_def strict_neq_def board_def constructor_def example_options_def
      example_redis_options_def)

text \<open>
  C10 fails on the code: \<^verbatim>\<open>getTop\<close> has an empty body. Whatever the leaderboard, the
  client and the arguments, it sends no command and never calls back, so it returns no
  window of members.
\<close>

theorem getTop_does_nothing:
  "getTop lb client param1 param2 s = (NoCallback, s)"
  by (simp add: getTop_def)

end
